theory Spec2Isabelle
  imports Main
begin

section \<open>Data model\<close>

text \<open>
  The generic repository of \<^verbatim>\<open>src/repositories/Repository.ts\<close> manages entities
  \<^verbatim>\<open>T extends { id?: number }\<close>. An entity is an extensible record whose only known
  field is the optional identifier; every concrete entity type extends it. The field is
  called \<open>id_f\<close> because \<open>id\<close> is the identity function of HOL (likewise \<open>type_f\<close> and
  \<open>image_f\<close> below). The identifier is a \<^verbatim>\<open>number\<close> that holds an integer; its arithmetic is
  in the section on JavaScript numbers.
\<close>

record entity =
  id_f :: "int option"

text \<open>
  \<^verbatim>\<open>Partial<ServeurInterface>\<close>: the argument of the constructor of \<^verbatim>\<open>ModelServeur\<close>, and the
  shape of a row of the server table (a column may hold NULL). Every field may be absent,
  hence the suffix \<open>_opt\<close>.
\<close>

record ServeurInterface = entity +
  nom_opt :: "string option"
  jeu_opt :: "string option"
  version_opt :: "string option"
  modpack_opt :: "string option"
  modpack_url_opt :: "string option"
  nom_monde_opt :: "string option"
  embed_color_opt :: "string option"
  contenaire_opt :: "string option"
  description_opt :: "string option"
  actif_opt :: "bool option"
  global_opt :: "bool option"
  type_opt :: "string option"
  image_opt :: "string option"

text \<open>
  An instance of the class \<^verbatim>\<open>ModelServeur\<close> (\<^verbatim>\<open>src/models/model-serveur.ts\<close>, lines 29-44):
  the identifier inherited from the base class, thirteen fields that the constructor always
  sets, and the optional \<^verbatim>\<open>players_online\<close>.
\<close>

record ModelServeur = entity +
  nom :: string
  jeu :: string
  version :: string
  modpack :: string
  modpack_url :: string
  nom_monde :: string
  embed_color :: string
  contenaire :: string
  description :: string
  actif :: bool
  global :: bool
  players_online :: "int option"
  type_f :: string
  image_f :: string

text \<open>
  \<^verbatim>\<open>ServeurParametersInterface\<close>: the two designated identifiers that
  \<^verbatim>\<open>getStartedServeursInfo\<close> reads.
\<close>

record ServeurParametersInterface =
  id_serv_primaire :: int
  id_serv_secondaire :: int

text \<open>A rejected promise of the driver, and a value of JavaScript in an object literal.\<close>

datatype error = QueryError

datatype jsvalue = Undefined | Num int | Str string | Bool bool

section \<open>JavaScript numbers\<close>

text \<open>
  An identifier is a \<^verbatim>\<open>number\<close>: an IEEE-754 double. The model keeps the integer that the
  double holds. Every integer of magnitude at most \<open>2 ^ 53\<close> is a double; a greater
  magnitude \<open>a\<close> is a double only when it is a multiple of \<open>quantum a\<close>, the power of two
  that leaves it 53 significant bits.
\<close>

fun quantum :: "nat \<Rightarrow> nat" where
  "quantum a = (if a < 2 ^ 53 then 1 else 2 * quantum (a div 2))"

declare quantum.simps [simp del]

text \<open>
  The double nearest to an integer, a tie going to the double whose significand is even
  (the rounding of IEEE-754 arithmetic).
\<close>

definition round_magnitude :: "nat \<Rightarrow> nat" where
  "round_magnitude a =
     (let q = quantum a; lo = a div q; r = a mod q
      in if 2 * r < q then lo * q
         else if q < 2 * r then (lo + 1) * q
         else if even lo then lo * q else (lo + 1) * q)"

definition round_double :: "int \<Rightarrow> int" where
  "round_double n =
     (if n < 0 then - int (round_magnitude (nat (- n))) else int (round_magnitude (nat n)))"

text \<open>
  The operator \<^verbatim>\<open>+\<close> on two numbers that hold integers: the double nearest to the exact
  sum. An integer of magnitude \<open>2 ^ 1024\<close> or more is not a number (it would be
  \<^verbatim>\<open>Infinity\<close>) and is outside the model; adding 1 to a double never gets there.
\<close>

definition number_add :: "int \<Rightarrow> int \<Rightarrow> int" where
  "number_add a b = round_double (a + b)"

text \<open>\<^verbatim>\<open>Number.isSafeInteger\<close>.\<close>

definition isSafeInteger :: "int \<Rightarrow> bool" where
  "isSafeInteger i = (\<bar>i\<bar> \<le> 2 ^ 53 - 1)"

text \<open>
  \<^verbatim>\<open>Number.prototype.toString\<close> on a number that holds an integer (ECMAScript,
  Number::toString with radix 10). The digits are those of the decimal \<open>s * 10 ^ (n - k)\<close>
  with the fewest significant digits \<open>k\<close> whose nearest double is the number, the closest
  one when several have \<open>k\<close> digits. \<open>candidates x p\<close> are the two multiples of \<open>p\<close> around
  \<open>x\<close>, the closer first; seventeen digits always suffice. With at most 21 digits the
  result is the digits of that decimal; from \<open>1e21\<close> on it is in exponent form. An integer
  that is not a double is first taken to its nearest double, as \<^verbatim>\<open>Number\<close> would.
\<close>

definition digit_char :: "nat \<Rightarrow> char" where
  "digit_char d = ''0123456789'' ! d"

fun digits :: "nat \<Rightarrow> string" where
  "digits n = (if n < 10 then [digit_char n] else digits (n div 10) @ [digit_char (n mod 10)])"

declare digits.simps [simp del]

definition candidates :: "nat \<Rightarrow> nat \<Rightarrow> nat list" where
  "candidates x p =
     (let lo = x div p; r = x mod p
      in if 2 * r < p then [lo * p, (lo + 1) * p]
         else if p < 2 * r then [(lo + 1) * p, lo * p]
         else if even lo then [lo * p, (lo + 1) * p] else [(lo + 1) * p, lo * p])"

definition shortest_decimal :: "nat \<Rightarrow> nat" where
  "shortest_decimal a =
     (let x = round_magnitude a
      in (case List.find (\<lambda>v. round_magnitude v = x)
                 (concat (map (\<lambda>k. candidates x (10 ^ (length (digits x) - k))) [1..<18])) of
            Some v \<Rightarrow> v
          | None \<Rightarrow> x))"

definition strip_zeros :: "string \<Rightarrow> string" where
  "strip_zeros ds = rev (dropWhile (\<lambda>c. c = CHR ''0'') (rev ds))"

definition magnitude_toString :: "nat \<Rightarrow> string" where
  "magnitude_toString a =
     (let ds = digits (shortest_decimal a); n = length ds
      in if n \<le> 21 then ds
         else (case strip_zeros ds of
                 [] \<Rightarrow> ds
               | d # fraction \<Rightarrow>
                   d # (if fraction = [] then [] else CHR ''.'' # fraction) @ ''e+'' @ digits (n - 1)))"

definition Number_toString :: "int \<Rightarrow> string" where
  "Number_toString i =
     (if i < 0 then CHR ''-'' # magnitude_toString (nat (- i)) else magnitude_toString (nat i))"

section \<open>The persistence client\<close>

text \<open>
  Modelled from the spec: the persistence client \<^verbatim>\<open>db\<close> (imported from \<^verbatim>\<open>../db\<close>, a
  connection of the mysql2 driver) is not part of the sources. The spec describes it as
  ``an externally supplied driver that executes parameterized SQL statements against a
  relational store and returns row sets'', whose failures the repository catches.
  The store maps a table name to its rows, in the order a \<^verbatim>\<open>SELECT\<close> returns them.
  \<open>faults\<close> is the script of the outcomes of the coming queries: each query consumes the
  head of the script and is rejected when it is \<open>True\<close>; once the script is used up, every
  query succeeds. A rejected query leaves the tables as they are.
\<close>

record 'r database =
  tables :: "string \<Rightarrow> 'r list"
  faults :: "bool list"

definition next_fault :: "'r database \<Rightarrow> bool" where
  "next_fault db = (case faults db of [] \<Rightarrow> False | f # _ \<Rightarrow> f)"

definition consume :: "'r database \<Rightarrow> 'r database" where
  "consume db = db\<lparr>faults := tl (faults db)\<rparr>"

text \<open>\<^verbatim>\<open>MAX(id)\<close> over the rows: NULL identifiers are skipped, no identifier gives NULL.\<close>

fun max_id :: "('a entity_scheme) list \<Rightarrow> int option" where
  "max_id [] = None"
| "max_id (r # rs) =
     (case id_f r of
        None \<Rightarrow> max_id rs
      | Some i \<Rightarrow> (case max_id rs of None \<Rightarrow> Some i | Some m \<Rightarrow> Some (max i m)))"

text \<open>
  \<^verbatim>\<open>SELECT MAX(id) AS id FROM t\<close>: one row, holding the maximum or NULL.
\<close>

definition db_select_max ::
  "('a entity_scheme) database \<Rightarrow> string \<Rightarrow> (error + int option list) \<times> ('a entity_scheme) database" where
  "db_select_max db t =
     (if next_fault db then (Inl QueryError, consume db)
      else (Inr [max_id (tables db t)], consume db))"

text \<open>\<^verbatim>\<open>INSERT INTO t SET ?\<close>: the row is appended to the table.\<close>

definition db_insert :: "'r database \<Rightarrow> string \<Rightarrow> 'r \<Rightarrow> (error + unit) \<times> 'r database" where
  "db_insert db t r =
     (if next_fault db then (Inl QueryError, consume db)
      else (Inr (), (consume db)\<lparr>tables := (tables db)(t := tables db t @ [r])\<rparr>))"

text \<open>\<^verbatim>\<open>SELECT * FROM t WHERE id = ?\<close>: the rows whose identifier is the given number.\<close>

definition db_select_by_id ::
  "('a entity_scheme) database \<Rightarrow> string \<Rightarrow> int \<Rightarrow> (error + ('a entity_scheme) list) \<times> ('a entity_scheme) database" where
  "db_select_by_id db t i =
     (if next_fault db then (Inl QueryError, consume db)
      else (Inr (filter (\<lambda>r. id_f r = Some i) (tables db t)), consume db))"

text \<open>\<^verbatim>\<open>SELECT * FROM t\<close>.\<close>

definition db_select_all :: "'r database \<Rightarrow> string \<Rightarrow> (error + 'r list) \<times> 'r database" where
  "db_select_all db t =
     (if next_fault db then (Inl QueryError, consume db)
      else (Inr (tables db t), consume db))"

text \<open>
  \<^verbatim>\<open>DELETE FROM t WHERE id = ?\<close>: the matching rows are removed; the reply is
  \<^verbatim>\<open>affectedRows\<close>, their number.
\<close>

definition db_delete ::
  "('a entity_scheme) database \<Rightarrow> string \<Rightarrow> int \<Rightarrow> (error + nat) \<times> ('a entity_scheme) database" where
  "db_delete db t i =
     (if next_fault db then (Inl QueryError, consume db)
      else (Inr (length (filter (\<lambda>r. id_f r = Some i) (tables db t))),
            (consume db)\<lparr>tables := (tables db)(t := filter (\<lambda>r. id_f r \<noteq> Some i) (tables db t))\<rparr>))"

section \<open>Repository\<close>

text \<open>
  The fields of \<^verbatim>\<open>Repository<T>\<close> (lines 26-27): the in-memory map and the table name.
  Every method takes the repository and the database and returns its result (\<open>Inl\<close> when
  the call raises to its caller) with the state it leaves. The lines written by
  \<^verbatim>\<open>console.error\<close> are not modelled.
\<close>

record 'r Repository =
  store :: "string \<rightharpoonup> 'r"
  tableName :: string

text \<open>
  \<^verbatim>\<open>fetchNextId\<close> (lines 34-45): \<^verbatim>\<open>(rows[0]?.id ?? 0) + 1\<close>, the sum being the one of
  JavaScript numbers, and 0 when the query is rejected.
\<close>

definition fetchNextId ::
  "('a entity_scheme) Repository \<Rightarrow> ('a entity_scheme) database \<Rightarrow> (error + int) \<times> ('a entity_scheme) database" where
  "fetchNextId repo db =
     (case db_select_max db (tableName repo) of
        (Inr rows, db') \<Rightarrow>
          (let maxId = (case (case rows of [] \<Rightarrow> None | r # _ \<Rightarrow> r) of None \<Rightarrow> 0 | Some m \<Rightarrow> m)
           in (Inr (number_add maxId 1), db'))
      | (Inl e, db') \<Rightarrow> (Inr 0, db'))"

definition getNextId ::
  "('a entity_scheme) Repository \<Rightarrow> ('a entity_scheme) database \<Rightarrow> (error + int) \<times> ('a entity_scheme) database" where
  "getNextId repo db = fetchNextId repo db"

text \<open>
  \<^verbatim>\<open>save\<close> (lines 52-63). The item is mutated by \<^verbatim>\<open>item.id ??= ...\<close>, so the state returned
  holds the item as well as the repository and the database.
\<close>

definition save ::
  "('a entity_scheme) Repository \<Rightarrow> ('a entity_scheme) database \<Rightarrow> 'a entity_scheme \<Rightarrow>
   (error + unit) \<times> ('a entity_scheme \<times> ('a entity_scheme) Repository \<times> ('a entity_scheme) database)" where
  "save repo db item =
     (case (case id_f item of Some i \<Rightarrow> (Inr i, db) | None \<Rightarrow> getNextId repo db) of
        (Inl e, db1) \<Rightarrow> (Inl e, (item, repo, db1))
      | (Inr n, db1) \<Rightarrow>
          (let item' = item\<lparr>id_f := Some n\<rparr>;
               repo' = repo\<lparr>store := (store repo)(Number_toString n \<mapsto> item')\<rparr>
           in (case db_insert db1 (tableName repo) item' of
                 (Inr u, db2) \<Rightarrow> (Inr (), (item', repo', db2))
               | (Inl e, db2) \<Rightarrow> (Inr (), (item', repo', db2)))))"

text \<open>\<^verbatim>\<open>findById\<close> (lines 66-78).\<close>

definition findById ::
  "('a entity_scheme) Repository \<Rightarrow> ('a entity_scheme) database \<Rightarrow> int \<Rightarrow>
   (error + ('a entity_scheme) option) \<times> ('a entity_scheme) database" where
  "findById repo db i =
     (case db_select_by_id db (tableName repo) i of
        (Inr rows, db') \<Rightarrow> (Inr (if length rows > 0 then Some (hd rows) else None), db')
      | (Inl e, db') \<Rightarrow> (Inr None, db'))"

text \<open>\<^verbatim>\<open>findAll\<close> (lines 81-89).\<close>

definition findAll ::
  "'r Repository \<Rightarrow> 'r database \<Rightarrow> (error + 'r list) \<times> 'r database" where
  "findAll repo db =
     (case db_select_all db (tableName repo) of
        (Inr rows, db') \<Rightarrow> (Inr rows, db')
      | (Inl e, db') \<Rightarrow> (Inr [], db'))"

text \<open>\<^verbatim>\<open>delete\<close> (lines 92-100).\<close>

definition delete ::
  "('a entity_scheme) Repository \<Rightarrow> ('a entity_scheme) database \<Rightarrow> int \<Rightarrow>
   (error + bool) \<times> ('a entity_scheme) database" where
  "delete repo db i =
     (case db_delete db (tableName repo) i of
        (Inr affectedRows, db') \<Rightarrow> (Inr (affectedRows > 0), db')
      | (Inl e, db') \<Rightarrow> (Inr False, db'))"

section \<open>The server model\<close>

text \<open>The operator \<^verbatim>\<open>??\<close>: the default replaces an absent (or null) value.\<close>

definition nullish :: "'a option \<Rightarrow> 'a \<Rightarrow> 'a" where
  "nullish v d = (case v of None \<Rightarrow> d | Some x \<Rightarrow> x)"

text \<open>
  The constructor of \<^verbatim>\<open>ModelServeur\<close> (lines 47-62). It never sets \<^verbatim>\<open>players_online\<close>.

  Modelled from the spec: the base class \<^verbatim>\<open>Model\<close> (\<^verbatim>\<open>./Model\<close>) is not part of the sources.
  The spec calls an entity ``any record with an optional numeric identifier'', and \<^verbatim>\<open>toJSON\<close>
  reads \<^verbatim>\<open>this.id\<close>, so \<^verbatim>\<open>super(data)\<close> is taken to keep the identifier of \<^verbatim>\<open>data\<close>.
\<close>

definition new_ModelServeur :: "ServeurInterface \<Rightarrow> ModelServeur" where
  "new_ModelServeur data =
     \<lparr> id_f = id_f data,
       nom = nullish (nom_opt data) '''',
       jeu = nullish (jeu_opt data) '''',
       version = nullish (version_opt data) '''',
       modpack = nullish (modpack_opt data) '''',
       modpack_url = nullish (modpack_url_opt data) '''',
       nom_monde = nullish (nom_monde_opt data) '''',
       embed_color = nullish (embed_color_opt data) ''#000000'',
       contenaire = nullish (contenaire_opt data) '''',
       description = nullish (description_opt data) '''',
       actif = nullish (actif_opt data) False,
       global = nullish (global_opt data) False,
       players_online = None,
       type_f = nullish (type_opt data) '''',
       image_f = nullish (image_opt data) '''' \<rparr>"

text \<open>
  A \<^verbatim>\<open>ModelServeur\<close> seen as the \<^verbatim>\<open>ServeurInterface\<close> it implements: what the repository
  receives when \<^verbatim>\<open>create\<close> passes the instance to \<^verbatim>\<open>save\<close>. The count of players is, in the
  words of the spec, ``transient (non-persisted)''.
\<close>

definition as_ServeurInterface :: "ModelServeur \<Rightarrow> ServeurInterface" where
  "as_ServeurInterface m =
     \<lparr> id_f = id_f m,
       nom_opt = Some (nom m),
       jeu_opt = Some (jeu m),
       version_opt = Some (version m),
       modpack_opt = Some (modpack m),
       modpack_url_opt = Some (modpack_url m),
       nom_monde_opt = Some (nom_monde m),
       embed_color_opt = Some (embed_color m),
       contenaire_opt = Some (contenaire m),
       description_opt = Some (description m),
       actif_opt = Some (actif m),
       global_opt = Some (global m),
       type_opt = Some (type_f m),
       image_opt = Some (image_f m) \<rparr>"

text \<open>
  \<^verbatim>\<open>toJSON\<close> (lines 74-91): the object literal, as the list of its keys and values.
\<close>

definition toJSON :: "ModelServeur \<Rightarrow> (string \<times> jsvalue) list" where
  "toJSON this =
     [ (''id'', (case id_f this of None \<Rightarrow> Undefined | Some i \<Rightarrow> Num i)),
       (''nom'', Str (nom this)),
       (''jeu'', Str (jeu this)),
       (''version'', Str (version this)),
       (''modpack'', Str (modpack this)),
       (''modpack_url'', Str (modpack_url this)),
       (''nom_monde'', Str (nom_monde this)),
       (''embed_color'', Str (embed_color this)),
       (''contenaire'', Str (contenaire this)),
       (''description'', Str (description this)),
       (''actif'', Bool (actif this)),
       (''global'', Bool (global this)),
       (''type'', Str (type_f this)),
       (''image'', Str (image_f this)) ]"

text \<open>
  The static methods read the static field \<^verbatim>\<open>serveursRepository\<close>; here the repository and
  the database are arguments. \<^verbatim>\<open>getById\<close> (lines 100-103):
\<close>

definition getById ::
  "ServeurInterface Repository \<Rightarrow> ServeurInterface database \<Rightarrow> int \<Rightarrow>
   (error + ModelServeur option) \<times> ServeurInterface database" where
  "getById repo db i =
     (case findById repo db i of
        (Inl e, db') \<Rightarrow> (Inl e, db')
      | (Inr serveur, db') \<Rightarrow>
          (Inr (case serveur of Some row \<Rightarrow> Some (new_ModelServeur row) | None \<Rightarrow> None), db'))"

text \<open>
  \<^verbatim>\<open>getStartedServeursId\<close> (lines 106-108) returns what \<^verbatim>\<open>getServeursId\<close> of the parameters
  repository resolves to. That repository (\<^verbatim>\<open>repository-serveur_parameters\<close>) is not part of
  the sources: the value it resolves to is an argument.
\<close>

definition getStartedServeursId ::
  "ServeurParametersInterface option \<Rightarrow> ServeurParametersInterface option" where
  "getStartedServeursId getServeursId = getServeursId"

text \<open>
  \<^verbatim>\<open>getServeursActifGlobal\<close> (lines 111-122). \<^verbatim>\<open>serveur.actif && serveur.global\<close> is truthy
  when both flags are present and true.
\<close>

definition getServeursActifGlobal ::
  "ServeurInterface Repository \<Rightarrow> ServeurInterface database \<Rightarrow>
   (error + ModelServeur list) \<times> ServeurInterface database" where
  "getServeursActifGlobal repo db =
     (case findAll repo db of
        (Inl e, db') \<Rightarrow> (Inl e, db')
      | (Inr serveurs, db') \<Rightarrow>
          (let serveursActifGlobal =
                 filter (\<lambda>serveur. actif_opt serveur = Some True \<and> global_opt serveur = Some True) serveurs
           in (Inr (map new_ModelServeur serveursActifGlobal), db')))"

text \<open>
  \<^verbatim>\<open>getStartedServeursInfo\<close> (lines 139-161). \<^verbatim>\<open>getPlayersCount\<close> of the service
  (\<^verbatim>\<open>service-serveur\<close>, not part of the sources) is an argument: the count it gives for a
  server.
\<close>

definition getStartedServeursInfo ::
  "ServeurInterface Repository \<Rightarrow> ServeurInterface database \<Rightarrow>
   ServeurParametersInterface option \<Rightarrow> (ModelServeur \<Rightarrow> int) \<Rightarrow>
   (error + ModelServeur list option) \<times> ServeurInterface database" where
  "getStartedServeursInfo repo db getServeursId getPlayersCount =
     (case getStartedServeursId getServeursId of
        None \<Rightarrow> (Inr None, db)
      | Some serveursStartedId \<Rightarrow>
          (case getById repo db (id_serv_primaire serveursStartedId) of
             (Inl e, db1) \<Rightarrow> (Inl e, db1)
           | (Inr serveursPrimary, db1) \<Rightarrow>
               (case getById repo db1 (id_serv_secondaire serveursStartedId) of
                  (Inl e, db2) \<Rightarrow> (Inl e, db2)
                | (Inr serveursSecondaire, db2) \<Rightarrow>
                    (let serveursPrimary' =
                           (case serveursPrimary of
                              Some p \<Rightarrow> Some (p\<lparr>players_online := Some (getPlayersCount p)\<rparr>)
                            | None \<Rightarrow> None);
                         serveursSecondaire' =
                           (case serveursSecondaire of
                              Some s \<Rightarrow> Some (s\<lparr>players_online := Some (getPlayersCount s)\<rparr>)
                            | None \<Rightarrow> None)
                     in (case serveursPrimary' of
                           Some p \<Rightarrow>
                             (case serveursSecondaire' of
                                Some s \<Rightarrow> (Inr (Some [p, s]), db2)
                              | None \<Rightarrow> (Inr None, db2))
                         | None \<Rightarrow> (Inr None, db2))))))"

text \<open>
  \<^verbatim>\<open>create\<close> (lines 164-169): \<^verbatim>\<open>getNextId\<close> (line 165), then \<open>create_persist\<close>, the lines
  166-168 that build the instance and save it. \<^verbatim>\<open>save\<close> may assign \<^verbatim>\<open>serveur.id\<close>, so the
  instance returned carries the identifier that \<^verbatim>\<open>save\<close> left.
\<close>

definition create_persist ::
  "ServeurInterface Repository \<Rightarrow> ServeurInterface database \<Rightarrow> ServeurInterface \<Rightarrow> int \<Rightarrow>
   (error + ModelServeur) \<times> (ServeurInterface Repository \<times> ServeurInterface database)" where
  "create_persist repo db data nextId =
     (let serveur = new_ModelServeur (data\<lparr>id_f := Some nextId\<rparr>)
      in (case save repo db (as_ServeurInterface serveur) of
            (Inl e, (item', repo', db')) \<Rightarrow> (Inl e, (repo', db'))
          | (Inr u, (item', repo', db')) \<Rightarrow> (Inr (serveur\<lparr>id_f := id_f item'\<rparr>), (repo', db'))))"

definition create ::
  "ServeurInterface Repository \<Rightarrow> ServeurInterface database \<Rightarrow> ServeurInterface \<Rightarrow>
   (error + ModelServeur) \<times> (ServeurInterface Repository \<times> ServeurInterface database)" where
  "create repo db data =
     (case getNextId repo db of
        (Inl e, db1) \<Rightarrow> (Inl e, (repo, db1))
      | (Inr nextId, db1) \<Rightarrow> create_persist repo db1 data nextId)"

text \<open>
  Two calls of \<^verbatim>\<open>create\<close> in flight at once. A call yields at each \<^verbatim>\<open>await\<close>: after
  \<^verbatim>\<open>getNextId\<close> (line 165) the other call may run before the first goes on to lines
  166-168. This is the schedule in which both calls read the maximum before either
  inserts: \<^verbatim>\<open>getNextId\<close> of the first, \<^verbatim>\<open>getNextId\<close> of the second, then the rest of the
  first, then the rest of the second. The result is the pair of what the two calls return.
\<close>

definition two_creates ::
  "ServeurInterface Repository \<Rightarrow> ServeurInterface database \<Rightarrow> ServeurInterface \<Rightarrow>
   ServeurInterface \<Rightarrow>
   ((error + ModelServeur) \<times> (error + ModelServeur)) \<times>
   (ServeurInterface Repository \<times> ServeurInterface database)" where
  "two_creates repo db data1 data2 =
     (case getNextId repo db of (nextId1, db1) \<Rightarrow>
      (case getNextId repo db1 of (nextId2, db2) \<Rightarrow>
       (case (case nextId1 of
                Inl e \<Rightarrow> (Inl e, (repo, db2))
              | Inr n1 \<Rightarrow> create_persist repo db2 data1 n1) of
          (serveur1, (repo3, db3)) \<Rightarrow>
            (case (case nextId2 of
                     Inl e \<Rightarrow> (Inl e, (repo3, db3))
                   | Inr n2 \<Rightarrow> create_persist repo3 db3 data2 n2) of
               (serveur2, (repo4, db4)) \<Rightarrow> ((serveur1, serveur2), (repo4, db4))))))"

section \<open>Notions used by the properties\<close>

text \<open>The identifiers present in a table, in the order of its rows: NULL is none.\<close>

fun ids :: "('a entity_scheme) list \<Rightarrow> int list" where
  "ids [] = []"
| "ids (r # rs) = (case id_f r of None \<Rightarrow> ids rs | Some i \<Rightarrow> i # ids rs)"

text \<open>
  Concrete states, for the examples below: a repository on the table \<^verbatim>\<open>serveurs\<close> with an
  empty map, a database whose table \<^verbatim>\<open>serveurs\<close> holds the given rows and whose coming
  queries have the given outcomes, the data of a request that creates a server, and a full
  row of the table with a given identifier.
\<close>

definition repo_ex :: "'r Repository" where
  "repo_ex = \<lparr>store = Map.empty, tableName = ''serveurs''\<rparr>"

definition db_ex :: "'r list \<Rightarrow> bool list \<Rightarrow> 'r database" where
  "db_ex rows fs = \<lparr>tables = (\<lambda>t. if t = ''serveurs'' then rows else []), faults = fs\<rparr>"

definition data_ex :: ServeurInterface where
  "data_ex =
     \<lparr> id_f = None, nom_opt = Some ''Serveur Test'', jeu_opt = Some ''Minecraft'',
       version_opt = Some ''1.19.2'', modpack_opt = Some ''Minecraft'', modpack_url_opt = None,
       nom_monde_opt = Some ''Test'', embed_color_opt = None, contenaire_opt = None,
       description_opt = None, actif_opt = Some True, global_opt = Some True,
       type_opt = None, image_opt = None \<rparr>"

definition row_ex :: "int \<Rightarrow> ServeurInterface" where
  "row_ex i = as_ServeurInterface (new_ModelServeur (data_ex\<lparr>id_f := Some i\<rparr>))"

section \<open>Auxiliary facts\<close>

lemmas ex_defs = repo_ex_def db_ex_def next_fault_def consume_def

lemma tables_consume: "tables (consume db) = tables db"
  by (simp add: consume_def)

lemma next_fault_tables_update: "next_fault (db\<lparr>tables := ts\<rparr>) = next_fault db"
  by (simp add: next_fault_def)

subsection \<open>Sums of numbers\<close>

lemma quantum_small: "a < 2 ^ 53 \<Longrightarrow> quantum a = 1"
  by (simp add: quantum.simps)

lemma round_magnitude_small: "a < 2 ^ 53 \<Longrightarrow> round_magnitude a = a"
  by (simp add: round_magnitude_def quantum_small)

lemma quantum_2_53: "quantum 9007199254740992 = 2"
  by (simp add: quantum.simps)

lemma round_magnitude_le: "a \<le> 2 ^ 53 \<Longrightarrow> round_magnitude a = a"
proof (cases "a < 2 ^ 53")
  case True
  then show ?thesis by (rule round_magnitude_small)
next
  case False
  moreover assume "a \<le> 2 ^ 53"
  ultimately have "a = 9007199254740992" by simp
  then show ?thesis by (simp add: round_magnitude_def quantum_2_53)
qed

lemma number_add_safe:
  assumes "isSafeInteger m"
  shows "number_add m 1 = m + 1"
proof (cases "m + 1 < 0")
  case True
  with assms have "nat (- (m + 1)) < 2 ^ 53" by (simp add: isSafeInteger_def)
  then have "round_magnitude (nat (- (m + 1))) = nat (- (m + 1))"
    by (rule round_magnitude_small)
  with True show ?thesis by (simp add: number_add_def round_double_def)
next
  case False
  with assms have "nat (m + 1) \<le> 2 ^ 53" by (simp add: isSafeInteger_def)
  then have "round_magnitude (nat (m + 1)) = nat (m + 1)"
    by (rule round_magnitude_le)
  with False show ?thesis by (simp add: number_add_def round_double_def)
qed

text \<open>
  Where the sum is not exact: the double after \<open>2 ^ 53\<close> is \<open>2 ^ 53 + 2\<close>, and
  \<open>2 ^ 53 + 1\<close> is rounded to \<open>2 ^ 53\<close>.
\<close>

lemma number_add_2_53: "number_add 9007199254740992 1 = 9007199254740992"
proof -
  have "quantum 9007199254740993 = 2" by (simp add: quantum.simps)
  then have "round_magnitude 9007199254740993 = 9007199254740992"
    by (simp add: round_magnitude_def)
  then show ?thesis by (simp add: number_add_def round_double_def)
qed

subsection \<open>The string of a number\<close>




text \<open>From \<open>1e21\<close> on the string is in exponent form.\<close>

lemma digits_1e21: "digits 1000000000000000000000 = ''1000000000000000000000''"
  by (simp add: digits.simps digit_char_def)

lemma quantum_1e21: "quantum 1000000000000000000000 = 131072"
  by (simp add: quantum.simps)

lemma round_magnitude_1e21: "round_magnitude 1000000000000000000000 = 1000000000000000000000"
  by (simp add: round_magnitude_def quantum_1e21)

lemma shortest_decimal_1e21: "shortest_decimal 1000000000000000000000 = 1000000000000000000000"
  by (simp add: shortest_decimal_def round_magnitude_1e21 digits_1e21 upt_rec candidates_def)

lemma Number_toString_1e21: "Number_toString 1000000000000000000000 = ''1e+21''"
  by (simp add: Number_toString_def magnitude_toString_def shortest_decimal_1e21 digits_1e21
      strip_zeros_def digits.simps digit_char_def)

subsection \<open>The maximum of the identifiers\<close>

lemma set_ids: "set (ids rs) = {i. \<exists>r \<in> set rs. id_f r = Some i}"
  by (induction rs) (auto split: option.splits)

lemma ids_append: "ids (xs @ ys) = ids xs @ ids ys"
  by (induction xs) (auto split: option.splits)

lemma max_id_None: "(max_id rs = None) = (ids rs = [])"
  by (induction rs) (auto split: option.splits)

lemma max_id_Max: "ids rs \<noteq> [] \<Longrightarrow> max_id rs = Some (Max (set (ids rs)))"
proof (induction rs)
  case Nil
  then show ?case by simp
next
  case (Cons r rs)
  show ?case
  proof (cases "id_f r")
    case None
    with Cons show ?thesis by simp
  next
    case (Some i)
    show ?thesis
    proof (cases "ids rs = []")
      case True
      then have "max_id rs = None" by (simp add: max_id_None)
      with True Some show ?thesis by simp
    next
      case False
      with Some Cons.IH show ?thesis by (simp add: max_def Max_insert)
    qed
  qed
qed

lemma max_id_bound:
  assumes "r \<in> set rs" and "id_f r = Some i"
  shows "\<exists>m. max_id rs = Some m \<and> i \<le> m"
proof -
  from assms have mem: "i \<in> set (ids rs)" by (auto simp: set_ids)
  then have "ids rs \<noteq> []" by auto
  then have "max_id rs = Some (Max (set (ids rs)))" by (rule max_id_Max)
  moreover from mem have "i \<le> Max (set (ids rs))" by simp
  ultimately show ?thesis by simp
qed

lemma max_id_mem: "max_id rs = Some m \<Longrightarrow> m \<in> set (ids rs)"
proof -
  assume m: "max_id rs = Some m"
  then have ne: "ids rs \<noteq> []" by (auto simp: max_id_None [symmetric])
  then have "max_id rs = Some (Max (set (ids rs)))" by (rule max_id_Max)
  with m have "m = Max (set (ids rs))" by simp
  moreover from ne have "Max (set (ids rs)) \<in> set (ids rs)" by (intro Max_in) simp_all
  ultimately show ?thesis by simp
qed

text \<open>
  The sum \<^verbatim>\<open>maxId + 1\<close> of \<^verbatim>\<open>fetchNextId\<close> is exact when the identifiers of the table are
  safe integers.
\<close>

lemma next_id_safe:
  assumes "\<forall>i \<in> set (ids rs). isSafeInteger i"
  shows "number_add (case max_id rs of None \<Rightarrow> 0 | Some m \<Rightarrow> m) 1 =
         (case max_id rs of None \<Rightarrow> 1 | Some m \<Rightarrow> m + 1)"
proof (cases "max_id rs")
  case None
  have "isSafeInteger 0" by (simp add: isSafeInteger_def)
  then have "number_add 0 1 = 0 + 1" by (rule number_add_safe)
  with None show ?thesis by simp
next
  case (Some m)
  then have "m \<in> set (ids rs)" by (rule max_id_mem)
  with assms have "isSafeInteger m" by blast
  then have "number_add m 1 = m + 1" by (rule number_add_safe)
  with Some show ?thesis by simp
qed

lemma filter_fresh_id:
  assumes "\<forall>i \<in> set (ids rs). isSafeInteger i"
  shows "filter (\<lambda>r. id_f r = Some (number_add (case max_id rs of None \<Rightarrow> 0 | Some m \<Rightarrow> m) 1)) rs = []"
proof -
  let ?n = "case max_id rs of None \<Rightarrow> 1 | Some m \<Rightarrow> m + 1"
  have "id_f r \<noteq> Some ?n" if "r \<in> set rs" for r
  proof
    assume eq: "id_f r = Some ?n"
    from max_id_bound [OF that eq] show False by auto
  qed
  then show ?thesis by (simp add: next_id_safe [OF assms] filter_empty_conv)
qed

subsection \<open>What each method of the repository computes\<close>

lemma fetchNextId_eq:
  "fetchNextId repo db =
     (Inr (if next_fault db then 0
           else number_add (case max_id (tables db (tableName repo)) of None \<Rightarrow> 0 | Some m \<Rightarrow> m) 1),
      consume db)"
  by (simp add: fetchNextId_def db_select_max_def split: option.splits)

lemma getNextId_eq:
  "getNextId repo db =
     (Inr (if next_fault db then 0
           else number_add (case max_id (tables db (tableName repo)) of None \<Rightarrow> 0 | Some m \<Rightarrow> m) 1),
      consume db)"
  by (simp add: getNextId_def fetchNextId_eq)

lemma save_eq:
  "save repo db item =
     (let n = (case id_f item of Some i \<Rightarrow> i | None \<Rightarrow> projr (fst (getNextId repo db)));
          db1 = (case id_f item of Some i \<Rightarrow> db | None \<Rightarrow> consume db);
          item' = item\<lparr>id_f := Some n\<rparr>
      in (Inr (), (item', repo\<lparr>store := (store repo)(Number_toString n \<mapsto> item')\<rparr>,
                   snd (db_insert db1 (tableName repo) item'))))"
  by (cases "id_f item") (simp_all add: save_def getNextId_eq Let_def db_insert_def)

lemma findAll_eq:
  "findAll repo db = (Inr (if next_fault db then [] else tables db (tableName repo)), consume db)"
  by (simp add: findAll_def db_select_all_def)

lemma findById_eq:
  "findById repo db i =
     (Inr (if next_fault db then None
           else (case filter (\<lambda>r. id_f r = Some i) (tables db (tableName repo)) of
                   [] \<Rightarrow> None | r # _ \<Rightarrow> Some r)),
      consume db)"
  by (simp add: findById_def db_select_by_id_def split: list.splits)

lemma getById_eq:
  "getById repo db i =
     (Inr (if next_fault db then None
           else (case filter (\<lambda>r. id_f r = Some i) (tables db (tableName repo)) of
                   [] \<Rightarrow> None | r # _ \<Rightarrow> Some (new_ModelServeur r))),
      consume db)"
  by (simp add: getById_def findById_eq split: list.splits)

subsection \<open>The constructor and the interface\<close>

lemma new_ModelServeur_as_ServeurInterface:
  "new_ModelServeur (as_ServeurInterface (new_ModelServeur d)) = new_ModelServeur d"
  by (simp add: new_ModelServeur_def as_ServeurInterface_def nullish_def)

lemma id_f_as_ServeurInterface: "id_f (as_ServeurInterface m) = id_f m"
  by (simp add: as_ServeurInterface_def)

lemma id_f_new_ModelServeur: "id_f (new_ModelServeur d) = id_f d"
  by (simp add: new_ModelServeur_def)

text \<open>
  What \<open>create_persist\<close> leaves when the insert succeeds: the instance built from the
  data with the given identifier, and its row at the end of the table.
\<close>

lemma create_persist_eq:
  assumes "\<not> next_fault db"
  shows "create_persist repo db data n =
     (Inr (new_ModelServeur (data\<lparr>id_f := Some n\<rparr>)),
      (repo\<lparr>store := (store repo)(Number_toString n \<mapsto>
                 as_ServeurInterface (new_ModelServeur (data\<lparr>id_f := Some n\<rparr>)))\<rparr>,
       (consume db)\<lparr>tables := (tables db)(tableName repo :=
          tables db (tableName repo) @ [as_ServeurInterface (new_ModelServeur (data\<lparr>id_f := Some n\<rparr>))])\<rparr>))"
proof -
  let ?serveur = "new_ModelServeur (data\<lparr>id_f := Some n\<rparr>)"
  let ?row = "as_ServeurInterface ?serveur"
  have row_id: "id_f ?row = Some n"
    by (simp add: id_f_as_ServeurInterface id_f_new_ModelServeur)
  then have row_upd: "?row\<lparr>id_f := Some n\<rparr> = ?row" by simp
  have "?serveur\<lparr>id_f := id_f ?row\<rparr> = ?serveur"
    by (simp add: row_id id_f_new_ModelServeur)
  then have serveur_upd: "?serveur\<lparr>id_f := Some n\<rparr> = ?serveur" by (simp add: row_id)
  from assms show ?thesis
    by (simp add: create_persist_def save_eq Let_def db_insert_def row_id row_upd serveur_upd)
qed

section \<open>The identifier that save assigns\<close>

text \<open>
  Claim C1, as the code has it. For an entity whose \<open>id\<close> is unset, \<^verbatim>\<open>save\<close> assigns the
  value that \<^verbatim>\<open>getNextId\<close> (that is, \<^verbatim>\<open>fetchNextId\<close>) computes at the time of the call, and
  the row it hands to the \<^verbatim>\<open>INSERT\<close> is the entity with that identifier. When the
  \<^verbatim>\<open>MAX\<close> query succeeds and the identifiers of the table are safe integers (so that
  \<^verbatim>\<open>maxId + 1\<close> is exact), the identifier is strictly greater than every identifier of the
  table. (The counterexample shows the two ways in which it is otherwise.)
\<close>

theorem save_assigns_next_id:
  assumes "id_f item = None"
  shows "\<exists>n. fst (getNextId repo db) = Inr n
           \<and> fst (snd (save repo db item)) = item\<lparr>id_f := Some n\<rparr>
           \<and> snd (snd (snd (save repo db item))) =
               snd (db_insert (snd (getNextId repo db)) (tableName repo) (item\<lparr>id_f := Some n\<rparr>))
           \<and> (\<not> next_fault db \<and> (\<forall>i \<in> set (ids (tables db (tableName repo))). isSafeInteger i) \<longrightarrow>
                 (\<forall>r \<in> set (tables db (tableName repo)). \<forall>i. id_f r = Some i \<longrightarrow> i < n))"
proof -
  let ?rs = "tables db (tableName repo)"
  let ?n = "if next_fault db then 0
            else number_add (case max_id ?rs of None \<Rightarrow> 0 | Some m \<Rightarrow> m) 1"
  have next_id: "getNextId repo db = (Inr ?n, consume db)" by (rule getNextId_eq)
  have assigned: "fst (snd (save repo db item)) = item\<lparr>id_f := Some ?n\<rparr>"
    using assms by (simp add: save_eq next_id Let_def)
  have inserted: "snd (snd (snd (save repo db item))) =
      snd (db_insert (snd (getNextId repo db)) (tableName repo) (item\<lparr>id_f := Some ?n\<rparr>))"
    using assms by (simp add: save_eq next_id Let_def)
  have greater: "i < ?n"
    if ok: "\<not> next_fault db" and safe: "\<forall>i \<in> set (ids ?rs). isSafeInteger i"
      and r: "r \<in> set ?rs" and i: "id_f r = Some i" for r i
  proof -
    from ok have "?n = (case max_id ?rs of None \<Rightarrow> 1 | Some m \<Rightarrow> m + 1)"
      by (simp add: next_id_safe [OF safe])
    moreover from max_id_bound [OF r i] obtain m where "max_id ?rs = Some m" and "i \<le> m"
      by blast
    ultimately show ?thesis by simp
  qed
  from next_id assigned inserted greater show ?thesis by (intro exI [of _ ?n]) auto
qed

text \<open>
  The theorem at a table that holds the identifiers 5 and 2, every query succeeding: the
  entity gets 6 and the table its third row.
\<close>

theorem save_assigns_next_id_witness:
  "id_f (\<lparr>id_f = None\<rparr> :: entity) = None
   \<and> \<not> next_fault (db_ex [\<lparr>id_f = Some 5\<rparr>, \<lparr>id_f = Some 2\<rparr>] [] :: entity database)
   \<and> isSafeInteger 5 \<and> isSafeInteger 2
   \<and> fst (snd (save repo_ex (db_ex [\<lparr>id_f = Some 5\<rparr>, \<lparr>id_f = Some 2\<rparr>] []) \<lparr>id_f = None\<rparr>)) =
       \<lparr>id_f = Some 6\<rparr>
   \<and> tables (snd (snd (snd (save repo_ex (db_ex [\<lparr>id_f = Some 5\<rparr>, \<lparr>id_f = Some 2\<rparr>] [])
         \<lparr>id_f = None\<rparr>)))) ''serveurs'' =
       [\<lparr>id_f = Some 5\<rparr>, \<lparr>id_f = Some 2\<rparr>, \<lparr>id_f = Some 6\<rparr>]"
proof -
  let ?db = "db_ex [\<lparr>id_f = Some 5\<rparr>, \<lparr>id_f = Some 2\<rparr>] [] :: entity database"
  let ?item = "\<lparr>id_f = None\<rparr> :: entity"
  have unset: "id_f ?item = None" by simp
  have ok: "\<not> next_fault ?db" by (simp add: ex_defs)
  have safe: "isSafeInteger 5 \<and> isSafeInteger 2" by (simp add: isSafeInteger_def)
  then have "number_add 5 1 = 5 + 1" by (intro number_add_safe) simp
  then have next_id: "getNextId repo_ex ?db = (Inr 6, consume ?db)"
    by (simp add: getNextId_eq ex_defs)
  have table: "tables (snd (db_insert (snd (getNextId repo_ex ?db)) (tableName repo_ex) \<lparr>id_f = Some 6\<rparr>))
          ''serveurs'' = [\<lparr>id_f = Some 5\<rparr>, \<lparr>id_f = Some 2\<rparr>, \<lparr>id_f = Some 6\<rparr>]"
    by (simp add: next_id) (simp add: db_insert_def ex_defs)
  from save_assigns_next_id [OF unset, of repo_ex ?db] show ?thesis
  proof (elim exE conjE)
    fix n
    assume "fst (getNextId repo_ex ?db) = Inr n"
      and assigned: "fst (snd (save repo_ex ?db ?item)) = ?item\<lparr>id_f := Some n\<rparr>"
      and inserted: "snd (snd (snd (save repo_ex ?db ?item))) =
         snd (db_insert (snd (getNextId repo_ex ?db)) (tableName repo_ex) (?item\<lparr>id_f := Some n\<rparr>))"
    with next_id have "n = 6" by simp
    with unset ok safe assigned inserted table show ?thesis by simp
  qed
qed

text \<open>
  The claim as it is written fails in two ways. When the \<^verbatim>\<open>MAX\<close> query is rejected,
  \<^verbatim>\<open>fetchNextId\<close> catches the error and returns 0, and \<^verbatim>\<open>save\<close> assigns 0 although the
  table holds the identifier 5. When the greatest identifier is \<open>2 ^ 53\<close> (here
  9007199254740992), \<^verbatim>\<open>maxId + 1\<close> is that same number, and \<^verbatim>\<open>save\<close> assigns an identifier
  equal to the maximum, not greater.
\<close>

theorem save_max_query_fails_counterexample:
  "id_f (fst (snd (save repo_ex (db_ex [\<lparr>id_f = Some 5\<rparr>] [True]) \<lparr>id_f = None\<rparr>))) = Some 0
   \<and> tables (db_ex [\<lparr>id_f = Some 5\<rparr>] [True]) (tableName repo_ex) = [\<lparr>id_f = Some 5\<rparr> :: entity]
   \<and> id_f (fst (snd (save repo_ex (db_ex [\<lparr>id_f = Some 9007199254740992\<rparr>] [])
         \<lparr>id_f = None\<rparr>))) = Some 9007199254740992
   \<and> tables (db_ex [\<lparr>id_f = Some 9007199254740992\<rparr>] []) (tableName repo_ex) =
       [\<lparr>id_f = Some 9007199254740992\<rparr> :: entity]"
  by (simp add: save_eq getNextId_eq Let_def ex_defs number_add_2_53)

section \<open>What delete returns\<close>

text \<open>
  Claim C2, as the code has it. \<^verbatim>\<open>delete(id)\<close> never raises; it returns true exactly when
  the \<^verbatim>\<open>DELETE\<close> query succeeds and a row with that identifier was in the table before
  the call (at least one row was affected), and false when the query is rejected.
\<close>

theorem delete_true_iff:
  "fst (delete repo db i) =
     Inr (\<not> next_fault db \<and> (\<exists>r \<in> set (tables db (tableName repo)). id_f r = Some i))"
  by (auto simp: delete_def db_delete_def filter_empty_conv)

text \<open>The theorem where the query succeeds: a row with the identifier 5, none with 4.\<close>

theorem delete_true_iff_witness:
  "fst (delete repo_ex (db_ex [\<lparr>id_f = Some 5\<rparr>] [False]) 5) = Inr True
   \<and> fst (delete repo_ex (db_ex [\<lparr>id_f = Some 5\<rparr>] [False]) 4) = Inr False"
  using delete_true_iff [of repo_ex "db_ex [\<lparr>id_f = Some 5\<rparr>] [False]" 5]
    delete_true_iff [of repo_ex "db_ex [\<lparr>id_f = Some 5\<rparr>] [False]" 4]
  by (simp add: ex_defs)

text \<open>
  The equivalence of the claim fails when the query is rejected: the row with the
  identifier 5 was in the table before the call, and \<^verbatim>\<open>delete(5)\<close> returns false.
\<close>

theorem delete_failed_query_counterexample:
  "fst (delete repo_ex (db_ex [\<lparr>id_f = Some 5\<rparr>] [True]) 5) = Inr False
   \<and> tables (db_ex [\<lparr>id_f = Some 5\<rparr>] [True]) (tableName repo_ex) = [\<lparr>id_f = Some 5\<rparr>]"
  by (simp add: delete_def db_delete_def ex_defs)

section \<open>save never raises\<close>

text \<open>
  Claim C3. For every repository, database (whatever the outcomes of its coming queries)
  and item, \<^verbatim>\<open>save\<close> completes normally: its result is the one value of \<^verbatim>\<open>void\<close>, the same
  when the insert is rejected as when it succeeds.
\<close>

theorem save_never_raises: "fst (save repo db item) = Inr ()"
  by (simp add: save_eq Let_def)

text \<open>The theorem where the insert is rejected.\<close>

theorem save_never_raises_witness:
  "next_fault (db_ex ([] :: entity list) [True])
   \<and> fst (save repo_ex (db_ex [] [True]) (\<lparr>id_f = Some 7\<rparr> :: entity)) = Inr ()"
  using save_never_raises [of repo_ex "db_ex [] [True]" "\<lparr>id_f = Some 7\<rparr>"]
  by (simp add: ex_defs)

section \<open>The active and global servers\<close>

text \<open>
  Claim C4, as the code has it. When the \<^verbatim>\<open>SELECT\<close> of \<^verbatim>\<open>findAll\<close> succeeds,
  \<^verbatim>\<open>getServeursActifGlobal\<close> returns exactly the rows of the table whose flags \<open>actif\<close> and
  \<open>global\<close> are both true, in the order of the table, each as a \<^verbatim>\<open>ModelServeur\<close>; when the
  query is rejected it returns the empty list. Either way it never raises and writes
  nothing to the tables.
\<close>

theorem getServeursActifGlobal_filter:
  "fst (getServeursActifGlobal repo db) =
     Inr (if next_fault db then []
          else map new_ModelServeur
                 (filter (\<lambda>r. actif_opt r = Some True \<and> global_opt r = Some True)
                    (tables db (tableName repo))))
   \<and> tables (snd (getServeursActifGlobal repo db)) = tables db"
  by (simp add: getServeursActifGlobal_def findAll_eq tables_consume)

text \<open>
  The theorem on four rows: the second is not active, the third has no global flag.
\<close>

theorem getServeursActifGlobal_filter_witness:
  "fst (getServeursActifGlobal repo_ex
          (db_ex [row_ex 1, (row_ex 2)\<lparr>actif_opt := Some False\<rparr>, (row_ex 3)\<lparr>global_opt := None\<rparr>,
                  row_ex 4] [])) =
     Inr [new_ModelServeur (row_ex 1), new_ModelServeur (row_ex 4)]"
  using getServeursActifGlobal_filter [of repo_ex
      "db_ex [row_ex 1, (row_ex 2)\<lparr>actif_opt := Some False\<rparr>, (row_ex 3)\<lparr>global_opt := None\<rparr>,
              row_ex 4] []"]
  by (simp add: ex_defs row_ex_def data_ex_def as_ServeurInterface_def new_ModelServeur_def
      nullish_def)

text \<open>
  The claim as it is written fails when the query is rejected: the only row of the table
  is active and global, and the list returned is empty.
\<close>

theorem getServeursActifGlobal_failed_query_counterexample:
  "fst (getServeursActifGlobal repo_ex (db_ex [row_ex 1] [True])) = Inr []
   \<and> tables (db_ex [row_ex 1] [True]) (tableName repo_ex) = [row_ex 1]
   \<and> actif_opt (row_ex 1) = Some True \<and> global_opt (row_ex 1) = Some True"
  by (simp add: getServeursActifGlobal_def findAll_def db_select_all_def ex_defs row_ex_def
      data_ex_def as_ServeurInterface_def new_ModelServeur_def nullish_def)

section \<open>Creating a server and reading it back\<close>

text \<open>
  Claim C5, as the code has it. When the three queries succeed (the \<^verbatim>\<open>MAX\<close> of
  \<^verbatim>\<open>getNextId\<close>, the \<^verbatim>\<open>INSERT\<close> of \<^verbatim>\<open>save\<close> and the \<^verbatim>\<open>SELECT\<close> of \<^verbatim>\<open>findById\<close>) and the
  identifiers of the table are safe integers, \<^verbatim>\<open>create\<close> returns a server with the
  identifier \<open>n\<close> that \<^verbatim>\<open>getNextId\<close> gives, and \<^verbatim>\<open>getById(n)\<close>, in the state \<^verbatim>\<open>create\<close>
  leaves, returns an equal server. Each of its fields is the field of the data where the
  data has it, and the default of the constructor where it has not; \<^verbatim>\<open>players_online\<close> is
  unset.
\<close>

theorem create_getById_roundtrip:
  assumes max_ok: "\<not> next_fault db"
    and insert_ok: "\<not> next_fault (consume db)"
    and select_ok: "\<not> next_fault (consume (consume db))"
    and safe: "\<forall>i \<in> set (ids (tables db (tableName repo))). isSafeInteger i"
  shows "\<exists>serveur repo1 db1 n.
           create repo db data = (Inr serveur, (repo1, db1))
         \<and> fst (getNextId repo db) = Inr n
         \<and> fst (getById repo1 db1 n) = Inr (Some serveur)
         \<and> serveur =
             \<lparr> id_f = Some n,
               nom = (case nom_opt data of None \<Rightarrow> '''' | Some v \<Rightarrow> v),
               jeu = (case jeu_opt data of None \<Rightarrow> '''' | Some v \<Rightarrow> v),
               version = (case version_opt data of None \<Rightarrow> '''' | Some v \<Rightarrow> v),
               modpack = (case modpack_opt data of None \<Rightarrow> '''' | Some v \<Rightarrow> v),
               modpack_url = (case modpack_url_opt data of None \<Rightarrow> '''' | Some v \<Rightarrow> v),
               nom_monde = (case nom_monde_opt data of None \<Rightarrow> '''' | Some v \<Rightarrow> v),
               embed_color = (case embed_color_opt data of None \<Rightarrow> ''#000000'' | Some v \<Rightarrow> v),
               contenaire = (case contenaire_opt data of None \<Rightarrow> '''' | Some v \<Rightarrow> v),
               description = (case description_opt data of None \<Rightarrow> '''' | Some v \<Rightarrow> v),
               actif = (case actif_opt data of None \<Rightarrow> False | Some v \<Rightarrow> v),
               global = (case global_opt data of None \<Rightarrow> False | Some v \<Rightarrow> v),
               players_online = None,
               type_f = (case type_opt data of None \<Rightarrow> '''' | Some v \<Rightarrow> v),
               image_f = (case image_opt data of None \<Rightarrow> '''' | Some v \<Rightarrow> v) \<rparr>"
proof -
  let ?t = "tableName repo"
  let ?n = "number_add (case max_id (tables db ?t) of None \<Rightarrow> 0 | Some m \<Rightarrow> m) 1"
  let ?serveur = "new_ModelServeur (data\<lparr>id_f := Some ?n\<rparr>)"
  let ?row = "as_ServeurInterface ?serveur"
  let ?repo1 = "repo\<lparr>store := (store repo)(Number_toString ?n \<mapsto> ?row)\<rparr>"
  let ?db1 = "(consume (consume db))\<lparr>tables := (tables db)(?t := tables db ?t @ [?row])\<rparr>"
  have next_id: "getNextId repo db = (Inr ?n, consume db)"
    using max_ok by (simp add: getNextId_eq)
  have row_id: "id_f ?row = Some ?n"
    by (simp add: id_f_as_ServeurInterface id_f_new_ModelServeur)
  have "create_persist repo (consume db) data ?n = (Inr ?serveur, (?repo1, ?db1))"
    using create_persist_eq [OF insert_ok, of repo data ?n] by (simp add: tables_consume)
  with next_id have created: "create repo db data = (Inr ?serveur, (?repo1, ?db1))"
    by (simp add: create_def)
  have "filter (\<lambda>r. id_f r = Some ?n) (tables ?db1 (tableName ?repo1)) = [?row]"
    using row_id by (simp add: filter_fresh_id [OF safe])
  moreover have "\<not> next_fault ?db1"
    using select_ok by (simp add: next_fault_tables_update)
  ultimately have "fst (getById ?repo1 ?db1 ?n) = Inr (Some (new_ModelServeur ?row))"
    by (simp add: getById_eq)
  then have found: "fst (getById ?repo1 ?db1 ?n) = Inr (Some ?serveur)"
    by (simp add: new_ModelServeur_as_ServeurInterface)
  have fields: "?serveur =
      \<lparr> id_f = Some ?n,
        nom = (case nom_opt data of None \<Rightarrow> '''' | Some v \<Rightarrow> v),
        jeu = (case jeu_opt data of None \<Rightarrow> '''' | Some v \<Rightarrow> v),
        version = (case version_opt data of None \<Rightarrow> '''' | Some v \<Rightarrow> v),
        modpack = (case modpack_opt data of None \<Rightarrow> '''' | Some v \<Rightarrow> v),
        modpack_url = (case modpack_url_opt data of None \<Rightarrow> '''' | Some v \<Rightarrow> v),
        nom_monde = (case nom_monde_opt data of None \<Rightarrow> '''' | Some v \<Rightarrow> v),
        embed_color = (case embed_color_opt data of None \<Rightarrow> ''#000000'' | Some v \<Rightarrow> v),
        contenaire = (case contenaire_opt data of None \<Rightarrow> '''' | Some v \<Rightarrow> v),
        description = (case description_opt data of None \<Rightarrow> '''' | Some v \<Rightarrow> v),
        actif = (case actif_opt data of None \<Rightarrow> False | Some v \<Rightarrow> v),
        global = (case global_opt data of None \<Rightarrow> False | Some v \<Rightarrow> v),
        players_online = None,
        type_f = (case type_opt data of None \<Rightarrow> '''' | Some v \<Rightarrow> v),
        image_f = (case image_opt data of None \<Rightarrow> '''' | Some v \<Rightarrow> v) \<rparr>"
    by (simp add: new_ModelServeur_def nullish_def)
  from next_id have "fst (getNextId repo db) = Inr ?n" by simp
  with created found fields show ?thesis by blast
qed

text \<open>
  The theorem on a table that holds one server, with the identifier 3, every query
  succeeding: the server created has the identifier 4, the fields of the data, and is read
  back.
\<close>

theorem create_getById_roundtrip_witness:
  "\<not> next_fault (db_ex [row_ex 3] [])
   \<and> \<not> next_fault (consume (db_ex [row_ex 3] []))
   \<and> \<not> next_fault (consume (consume (db_ex [row_ex 3] [])))
   \<and> ids (tables (db_ex [row_ex 3] []) (tableName (repo_ex :: ServeurInterface Repository))) = [3]
   \<and> isSafeInteger 3
   \<and> fst (getById (fst (snd (create repo_ex (db_ex [row_ex 3] []) data_ex)))
             (snd (snd (create repo_ex (db_ex [row_ex 3] []) data_ex))) 4) =
       Inr (Some
         \<lparr> id_f = Some 4, nom = ''Serveur Test'', jeu = ''Minecraft'', version = ''1.19.2'',
           modpack = ''Minecraft'', modpack_url = '''', nom_monde = ''Test'',
           embed_color = ''#000000'', contenaire = '''', description = '''', actif = True,
           global = True, players_online = None, type_f = '''', image_f = '''' \<rparr>)"
proof -
  let ?db = "db_ex [row_ex 3] []"
  let ?repo = "repo_ex :: ServeurInterface Repository"
  have h1: "\<not> next_fault ?db" by (simp add: ex_defs)
  have h2: "\<not> next_fault (consume ?db)" by (simp add: ex_defs)
  have h3: "\<not> next_fault (consume (consume ?db))" by (simp add: ex_defs)
  have table_ids: "ids (tables ?db (tableName ?repo)) = [3]"
    by (simp add: ex_defs row_ex_def id_f_as_ServeurInterface id_f_new_ModelServeur)
  have safe3: "isSafeInteger 3" by (simp add: isSafeInteger_def)
  with table_ids have h4: "\<forall>i \<in> set (ids (tables ?db (tableName ?repo))). isSafeInteger i"
    by simp
  have "max_id (tables ?db (tableName ?repo)) = Some 3"
    by (simp add: ex_defs row_ex_def id_f_as_ServeurInterface id_f_new_ModelServeur)
  moreover from safe3 have "number_add 3 1 = 3 + 1" by (rule number_add_safe)
  ultimately have next_id: "fst (getNextId ?repo ?db) = Inr 4"
    using h1 by (simp add: getNextId_eq)
  from create_getById_roundtrip [OF h1 h2 h3 h4, of data_ex] show ?thesis
  proof (elim exE conjE)
    fix serveur repo1 db1 n
    assume created: "create ?repo ?db data_ex = (Inr serveur, (repo1, db1))"
      and n: "fst (getNextId ?repo ?db) = Inr n"
      and found: "fst (getById repo1 db1 n) = Inr (Some serveur)"
      and fields: "serveur =
        \<lparr> id_f = Some n,
          nom = (case nom_opt data_ex of None \<Rightarrow> '''' | Some v \<Rightarrow> v),
          jeu = (case jeu_opt data_ex of None \<Rightarrow> '''' | Some v \<Rightarrow> v),
          version = (case version_opt data_ex of None \<Rightarrow> '''' | Some v \<Rightarrow> v),
          modpack = (case modpack_opt data_ex of None \<Rightarrow> '''' | Some v \<Rightarrow> v),
          modpack_url = (case modpack_url_opt data_ex of None \<Rightarrow> '''' | Some v \<Rightarrow> v),
          nom_monde = (case nom_monde_opt data_ex of None \<Rightarrow> '''' | Some v \<Rightarrow> v),
          embed_color = (case embed_color_opt data_ex of None \<Rightarrow> ''#000000'' | Some v \<Rightarrow> v),
          contenaire = (case contenaire_opt data_ex of None \<Rightarrow> '''' | Some v \<Rightarrow> v),
          description = (case description_opt data_ex of None \<Rightarrow> '''' | Some v \<Rightarrow> v),
          actif = (case actif_opt data_ex of None \<Rightarrow> False | Some v \<Rightarrow> v),
          global = (case global_opt data_ex of None \<Rightarrow> False | Some v \<Rightarrow> v),
          players_online = None,
          type_f = (case type_opt data_ex of None \<Rightarrow> '''' | Some v \<Rightarrow> v),
          image_f = (case image_opt data_ex of None \<Rightarrow> '''' | Some v \<Rightarrow> v) \<rparr>"
    from n next_id have "n = 4" by simp
    with created found
    have "fst (getById (fst (snd (create ?repo ?db data_ex)))
                (snd (snd (create ?repo ?db data_ex))) 4) = Inr (Some serveur)"
      by simp
    moreover from fields \<open>n = 4\<close> have "serveur =
        \<lparr> id_f = Some 4, nom = ''Serveur Test'', jeu = ''Minecraft'', version = ''1.19.2'',
          modpack = ''Minecraft'', modpack_url = '''', nom_monde = ''Test'',
          embed_color = ''#000000'', contenaire = '''', description = '''', actif = True,
          global = True, players_online = None, type_f = '''', image_f = '''' \<rparr>"
      by (simp add: data_ex_def)
    ultimately show ?thesis using h1 h2 h3 table_ids safe3 by simp
  qed
qed

text \<open>
  The claim as it is written fails in two ways. When the \<^verbatim>\<open>INSERT\<close> is rejected, \<^verbatim>\<open>save\<close>
  catches the error, \<^verbatim>\<open>create\<close> returns the server with the identifier 1, and
  \<^verbatim>\<open>getById(1)\<close> returns null. When the table holds a server with the identifier
  \<open>2 ^ 53\<close> (here 9007199254740992, named \<open>Ancien\<close>), the three queries succeed, the server
  created gets that same identifier, and \<^verbatim>\<open>getById\<close> returns the first row that has it:
  the old server.
\<close>

theorem create_failed_insert_counterexample:
  "fst (create repo_ex (db_ex [] [False, True]) data_ex) =
     Inr (new_ModelServeur (data_ex\<lparr>id_f := Some 1\<rparr>))
   \<and> fst (getById (fst (snd (create repo_ex (db_ex [] [False, True]) data_ex)))
             (snd (snd (create repo_ex (db_ex [] [False, True]) data_ex))) 1) = Inr None
   \<and> fst (create repo_ex (db_ex [(row_ex 9007199254740992)\<lparr>nom_opt := Some ''Ancien''\<rparr>] []) data_ex) =
        Inr (new_ModelServeur (data_ex\<lparr>id_f := Some 9007199254740992\<rparr>))
   \<and> nom (new_ModelServeur (data_ex\<lparr>id_f := Some 9007199254740992\<rparr>)) = ''Serveur Test''
   \<and> fst (getById
           (fst (snd (create repo_ex (db_ex [(row_ex 9007199254740992)\<lparr>nom_opt := Some ''Ancien''\<rparr>] [])
              data_ex)))
           (snd (snd (create repo_ex (db_ex [(row_ex 9007199254740992)\<lparr>nom_opt := Some ''Ancien''\<rparr>] [])
              data_ex)))
           9007199254740992) =
        Inr (Some (new_ModelServeur ((row_ex 9007199254740992)\<lparr>nom_opt := Some ''Ancien''\<rparr>)))
   \<and> nom (new_ModelServeur ((row_ex 9007199254740992)\<lparr>nom_opt := Some ''Ancien''\<rparr>)) = ''Ancien''"
proof -
  have one: "number_add 0 1 = 1"
    using number_add_safe [of 0] by (simp add: isSafeInteger_def)
  have first: "fst (create repo_ex (db_ex [] [False, True]) data_ex) =
       Inr (new_ModelServeur (data_ex\<lparr>id_f := Some 1\<rparr>))
     \<and> fst (getById (fst (snd (create repo_ex (db_ex [] [False, True]) data_ex)))
             (snd (snd (create repo_ex (db_ex [] [False, True]) data_ex))) 1) = Inr None"
    by (simp add: create_def create_persist_def save_eq getNextId_eq getById_eq Let_def
        db_insert_def ex_defs one id_f_as_ServeurInterface id_f_new_ModelServeur)
  let ?old = "(row_ex 9007199254740992)\<lparr>nom_opt := Some ''Ancien''\<rparr>"
  let ?db = "db_ex [?old] [] :: ServeurInterface database"
  have old_id: "id_f ?old = Some 9007199254740992"
    by (simp add: row_ex_def id_f_as_ServeurInterface id_f_new_ModelServeur)
  then have next_id: "getNextId repo_ex ?db = (Inr 9007199254740992, consume ?db)"
    by (simp add: getNextId_eq ex_defs number_add_2_53)
  let ?new = "new_ModelServeur (data_ex\<lparr>id_f := Some 9007199254740992\<rparr>)"
  let ?repo = "repo_ex :: ServeurInterface Repository"
  let ?repo1 = "?repo\<lparr>store := (store ?repo)(Number_toString 9007199254740992 \<mapsto>
            as_ServeurInterface ?new)\<rparr>"
  let ?db1 = "(consume (consume ?db))\<lparr>tables := (tables (consume ?db))(tableName ?repo :=
            tables (consume ?db) (tableName ?repo) @ [as_ServeurInterface ?new])\<rparr>"
  have "\<not> next_fault (consume ?db)" by (simp add: ex_defs)
  then have persist: "create_persist repo_ex (consume ?db) data_ex 9007199254740992 =
      (Inr ?new, (?repo1, ?db1))"
    by (rule create_persist_eq)
  have created: "create repo_ex ?db data_ex = (Inr ?new, (?repo1, ?db1))"
    by (simp add: create_def next_id persist)
  have found: "fst (getById (fst (snd (create repo_ex ?db data_ex)))
           (snd (snd (create repo_ex ?db data_ex))) 9007199254740992) =
        Inr (Some (new_ModelServeur ?old))"
    using old_id
    by (simp add: created getById_eq next_fault_tables_update)
       (simp add: ex_defs)
  have new_name: "nom (new_ModelServeur (data_ex\<lparr>id_f := Some 9007199254740992\<rparr>)) = ''Serveur Test''"
    by (simp add: new_ModelServeur_def nullish_def data_ex_def)
  have old_name: "nom (new_ModelServeur ?old) = ''Ancien''"
    by (simp add: new_ModelServeur_def nullish_def)
  from first created found new_name old_name show ?thesis by simp
qed

section \<open>The primary and the secondary server\<close>

text \<open>
  Claim C6. \<^verbatim>\<open>getStartedServeursInfo\<close> never raises. It returns null when the lookup of the
  two identifiers gives null, when \<^verbatim>\<open>getById\<close> of the primary server gives null, and when
  \<^verbatim>\<open>getById\<close> of the secondary server (in the state the first lookup leaves) gives null;
  otherwise it returns the two servers, each with \<^verbatim>\<open>players_online\<close> set to the count of
  the service.
\<close>

theorem getStartedServeursInfo_null:
  "fst (getStartedServeursInfo repo db getServeursId getPlayersCount) =
     Inr (case getServeursId of
            None \<Rightarrow> None
          | Some p \<Rightarrow>
              (let primary = getById repo db (id_serv_primaire p);
                   secondary = getById repo (snd primary) (id_serv_secondaire p)
               in (case fst primary of
                     Inr (Some a) \<Rightarrow>
                       (case fst secondary of
                          Inr (Some b) \<Rightarrow>
                            Some [a\<lparr>players_online := Some (getPlayersCount a)\<rparr>,
                                  b\<lparr>players_online := Some (getPlayersCount b)\<rparr>]
                        | _ \<Rightarrow> None)
                   | _ \<Rightarrow> None)))"
proof (cases getServeursId)
  case None
  then show ?thesis by (simp add: getStartedServeursInfo_def getStartedServeursId_def)
next
  case (Some p)
  obtain a db1 where primary: "getById repo db (id_serv_primaire p) = (Inr a, db1)"
    by (simp add: getById_eq)
  obtain b db2 where secondary: "getById repo db1 (id_serv_secondaire p) = (Inr b, db2)"
    by (simp add: getById_eq)
  from Some primary secondary show ?thesis
    by (simp add: getStartedServeursInfo_def getStartedServeursId_def Let_def
        split: option.splits)
qed

text \<open>
  The theorem on a table with the servers 1 and 2 and a service that counts 3 players:
  both found; the secondary absent; the first query rejected; no parameters.
\<close>

theorem getStartedServeursInfo_null_witness:
  "fst (getStartedServeursInfo repo_ex (db_ex [row_ex 1, row_ex 2] [])
          (Some \<lparr>id_serv_primaire = 1, id_serv_secondaire = 2\<rparr>) (\<lambda>s. 3)) =
     Inr (Some [(new_ModelServeur (row_ex 1))\<lparr>players_online := Some 3\<rparr>,
                (new_ModelServeur (row_ex 2))\<lparr>players_online := Some 3\<rparr>])
   \<and> fst (getStartedServeursInfo repo_ex (db_ex [row_ex 1, row_ex 2] [])
          (Some \<lparr>id_serv_primaire = 1, id_serv_secondaire = 8\<rparr>) (\<lambda>s. 3)) = Inr None
   \<and> fst (getStartedServeursInfo repo_ex (db_ex [row_ex 1, row_ex 2] [True])
          (Some \<lparr>id_serv_primaire = 1, id_serv_secondaire = 2\<rparr>) (\<lambda>s. 3)) = Inr None
   \<and> fst (getStartedServeursInfo repo_ex (db_ex [row_ex 1, row_ex 2] []) None (\<lambda>s. 3)) = Inr None"
  using getStartedServeursInfo_null [of repo_ex "db_ex [row_ex 1, row_ex 2] []"
      "Some \<lparr>id_serv_primaire = 1, id_serv_secondaire = 2\<rparr>" "\<lambda>s. 3"]
    getStartedServeursInfo_null [of repo_ex "db_ex [row_ex 1, row_ex 2] []"
      "Some \<lparr>id_serv_primaire = 1, id_serv_secondaire = 8\<rparr>" "\<lambda>s. 3"]
    getStartedServeursInfo_null [of repo_ex "db_ex [row_ex 1, row_ex 2] [True]"
      "Some \<lparr>id_serv_primaire = 1, id_serv_secondaire = 2\<rparr>" "\<lambda>s. 3"]
    getStartedServeursInfo_null [of repo_ex "db_ex [row_ex 1, row_ex 2] []" None "\<lambda>s. 3"]
  by (simp add: getById_eq Let_def ex_defs row_ex_def id_f_as_ServeurInterface
      id_f_new_ModelServeur)

section \<open>The next identifier\<close>

text \<open>
  Claim C7, as the code has it. \<^verbatim>\<open>getNextId\<close> never raises. When the \<^verbatim>\<open>MAX\<close> query is
  rejected it returns 0. When the query succeeds and the identifiers of the table are safe
  integers, it returns one plus the greatest identifier of the table, and 1 when the table
  holds no identifier.
\<close>

theorem getNextId_value:
  "(\<exists>n. fst (getNextId repo db) = Inr n)
   \<and> (next_fault db \<longrightarrow> fst (getNextId repo db) = Inr 0)
   \<and> (\<not> next_fault db \<and> (\<forall>i \<in> set (ids (tables db (tableName repo))). isSafeInteger i) \<longrightarrow>
        fst (getNextId repo db) =
          Inr (if ids (tables db (tableName repo)) = [] then 1
               else Max (set (ids (tables db (tableName repo)))) + 1))"
proof -
  let ?rs = "tables db (tableName repo)"
  have "fst (getNextId repo db) = Inr (if ids ?rs = [] then 1 else Max (set (ids ?rs)) + 1)"
    if ok: "\<not> next_fault db" and safe: "\<forall>i \<in> set (ids ?rs). isSafeInteger i"
  proof -
    from ok have computed: "fst (getNextId repo db) =
        Inr (case max_id ?rs of None \<Rightarrow> 1 | Some m \<Rightarrow> m + 1)"
      by (simp add: getNextId_eq next_id_safe [OF safe])
    show ?thesis
    proof (cases "ids ?rs = []")
      case True
      then have "max_id ?rs = None" by (simp add: max_id_None)
      with True computed show ?thesis by simp
    next
      case False
      then have "max_id ?rs = Some (Max (set (ids ?rs)))" by (rule max_id_Max)
      with False computed show ?thesis by simp
    qed
  qed
  then show ?thesis by (simp add: getNextId_eq)
qed

text \<open>
  The theorem on a table with the identifiers 5, NULL and 9, on an empty table, and
  where the query is rejected.
\<close>

theorem getNextId_value_witness:
  "isSafeInteger 5 \<and> isSafeInteger 9
   \<and> fst (getNextId repo_ex (db_ex [\<lparr>id_f = Some 5\<rparr>, \<lparr>id_f = None\<rparr>, \<lparr>id_f = Some 9\<rparr>] [])) = Inr 10
   \<and> fst (getNextId repo_ex (db_ex ([] :: entity list) [])) = Inr 1
   \<and> fst (getNextId repo_ex (db_ex [\<lparr>id_f = Some 5\<rparr>] [True])) = Inr 0"
  using getNextId_value [of repo_ex "db_ex [\<lparr>id_f = Some 5\<rparr>, \<lparr>id_f = None\<rparr>, \<lparr>id_f = Some 9\<rparr>] []"]
    getNextId_value [of repo_ex "db_ex ([] :: entity list) []"]
    getNextId_value [of repo_ex "db_ex [\<lparr>id_f = Some 5\<rparr>] [True]"]
  by (simp add: ex_defs isSafeInteger_def)

text \<open>
  The claim as it is written fails where \<^verbatim>\<open>maxId + 1\<close> is not exact: on a table whose
  greatest identifier is \<open>2 ^ 53\<close> (9007199254740992) the query succeeds and \<^verbatim>\<open>getNextId\<close>
  returns that same number, not one plus it.
\<close>

theorem getNextId_inexact_counterexample:
  "\<not> next_fault (db_ex [\<lparr>id_f = Some 9007199254740992\<rparr> :: entity] [])
   \<and> ids (tables (db_ex [\<lparr>id_f = Some 9007199254740992\<rparr> :: entity] []) (tableName repo_ex)) =
       [9007199254740992]
   \<and> fst (getNextId repo_ex (db_ex [\<lparr>id_f = Some 9007199254740992\<rparr> :: entity] [])) =
       Inr 9007199254740992"
  by (simp add: getNextId_eq ex_defs number_add_2_53)

section \<open>The in-memory map after a failed insert\<close>



section \<open>Two creates in flight\<close>

text \<open>
  Claim C8. The schedule \<open>two_creates\<close> is an interleaving of two calls of \<^verbatim>\<open>create\<close> none
  of which is given an identifier. Whenever its four queries succeed, both calls compute
  the same identifier \<open>n\<close> (the one \<^verbatim>\<open>getNextId\<close> gives in the first state), both return a
  server that carries it, both rows are inserted, and the identifiers of the table are no
  longer distinct.
\<close>

theorem two_creates_same_identifier:
  assumes max1_ok: "\<not> next_fault db"
    and max2_ok: "\<not> next_fault (consume db)"
    and insert1_ok: "\<not> next_fault (consume (consume db))"
    and insert2_ok: "\<not> next_fault (consume (consume (consume db)))"
  shows "\<exists>n serveur1 serveur2 repo' db'.
           two_creates repo db data1 data2 = ((Inr serveur1, Inr serveur2), (repo', db'))
         \<and> fst (getNextId repo db) = Inr n
         \<and> id_f serveur1 = Some n \<and> id_f serveur2 = Some n
         \<and> tables db' (tableName repo) =
             tables db (tableName repo) @ [as_ServeurInterface serveur1, as_ServeurInterface serveur2]
         \<and> \<not> distinct (ids (tables db' (tableName repo)))"
proof -
  let ?t = "tableName repo"
  let ?n = "number_add (case max_id (tables db ?t) of None \<Rightarrow> 0 | Some m \<Rightarrow> m) 1"
  let ?s1 = "new_ModelServeur (data1\<lparr>id_f := Some ?n\<rparr>)"
  let ?s2 = "new_ModelServeur (data2\<lparr>id_f := Some ?n\<rparr>)"
  let ?db2 = "consume (consume db)"
  let ?repo3 = "repo\<lparr>store := (store repo)(Number_toString ?n \<mapsto> as_ServeurInterface ?s1)\<rparr>"
  let ?db3 = "(consume ?db2)\<lparr>tables := (tables ?db2)(?t := tables ?db2 ?t @ [as_ServeurInterface ?s1])\<rparr>"
  let ?repo4 = "?repo3\<lparr>store := (store ?repo3)(Number_toString ?n \<mapsto> as_ServeurInterface ?s2)\<rparr>"
  let ?db4 = "(consume ?db3)\<lparr>tables := (tables ?db3)(?t := tables ?db3 ?t @ [as_ServeurInterface ?s2])\<rparr>"
  have next1: "getNextId repo db = (Inr ?n, consume db)"
    using max1_ok by (simp add: getNextId_eq)
  have next2: "getNextId repo (consume db) = (Inr ?n, ?db2)"
    using max2_ok by (simp add: getNextId_eq tables_consume)
  have persist1: "create_persist repo ?db2 data1 ?n = (Inr ?s1, (?repo3, ?db3))"
    by (rule create_persist_eq [OF insert1_ok])
  have "\<not> next_fault ?db3"
    using insert2_ok by (simp add: next_fault_tables_update)
  from create_persist_eq [OF this, of ?repo3 data2 ?n]
  have persist2: "create_persist ?repo3 ?db3 data2 ?n = (Inr ?s2, (?repo4, ?db4))"
    by simp
  from next1 next2 persist1 persist2
  have run: "two_creates repo db data1 data2 = ((Inr ?s1, Inr ?s2), (?repo4, ?db4))"
    by (simp add: two_creates_def)
  have table: "tables ?db4 ?t = tables db ?t @ [as_ServeurInterface ?s1, as_ServeurInterface ?s2]"
    by (simp add: tables_consume)
  have id1: "id_f ?s1 = Some ?n" and id2: "id_f ?s2 = Some ?n"
    by (simp_all add: id_f_new_ModelServeur)
  have "ids (tables ?db4 ?t) = ids (tables db ?t) @ [?n, ?n]"
    by (simp add: tables_consume ids_append id_f_as_ServeurInterface id_f_new_ModelServeur)
  then have dup: "\<not> distinct (ids (tables ?db4 ?t))" by simp
  from next1 have "fst (getNextId repo db) = Inr ?n" by simp
  with run id1 id2 table dup show ?thesis by blast
qed

text \<open>
  The theorem on a table that holds one server, with the identifier 3, every query
  succeeding: both servers created get the identifier 4, and the table ends with the
  identifiers 3, 4 and 4.
\<close>

theorem two_creates_same_identifier_witness:
  "\<not> next_fault (db_ex [row_ex 3] [])
   \<and> \<not> next_fault (consume (db_ex [row_ex 3] []))
   \<and> \<not> next_fault (consume (consume (db_ex [row_ex 3] [])))
   \<and> \<not> next_fault (consume (consume (consume (db_ex [row_ex 3] []))))
   \<and> map_sum id id_f (fst (fst (two_creates repo_ex (db_ex [row_ex 3] []) data_ex
         (data_ex\<lparr>nom_opt := Some ''Second''\<rparr>)))) = Inr (Some 4)
   \<and> map_sum id id_f (snd (fst (two_creates repo_ex (db_ex [row_ex 3] []) data_ex
         (data_ex\<lparr>nom_opt := Some ''Second''\<rparr>)))) = Inr (Some 4)
   \<and> ids (tables (snd (snd (two_creates repo_ex (db_ex [row_ex 3] []) data_ex
         (data_ex\<lparr>nom_opt := Some ''Second''\<rparr>)))) ''serveurs'') = [3, 4, 4]"
proof -
  let ?db = "db_ex [row_ex 3] []"
  let ?repo = "repo_ex :: ServeurInterface Repository"
  let ?data2 = "data_ex\<lparr>nom_opt := Some ''Second''\<rparr>"
  have h1: "\<not> next_fault ?db" by (simp add: ex_defs)
  have h2: "\<not> next_fault (consume ?db)" by (simp add: ex_defs)
  have h3: "\<not> next_fault (consume (consume ?db))" by (simp add: ex_defs)
  have h4: "\<not> next_fault (consume (consume (consume ?db)))" by (simp add: ex_defs)
  have table_ids: "ids (tables ?db (tableName ?repo)) = [3]"
    by (simp add: ex_defs row_ex_def id_f_as_ServeurInterface id_f_new_ModelServeur)
  have "max_id (tables ?db (tableName ?repo)) = Some 3"
    by (simp add: ex_defs row_ex_def id_f_as_ServeurInterface id_f_new_ModelServeur)
  moreover have "number_add 3 1 = 3 + 1" by (rule number_add_safe) (simp add: isSafeInteger_def)
  ultimately have next_id: "fst (getNextId ?repo ?db) = Inr 4"
    using h1 by (simp add: getNextId_eq)
  from two_creates_same_identifier [OF h1 h2 h3 h4, of ?repo data_ex ?data2] show ?thesis
  proof (elim exE conjE)
    fix n serveur1 serveur2 repo' db'
    assume run: "two_creates ?repo ?db data_ex ?data2 = ((Inr serveur1, Inr serveur2), (repo', db'))"
      and n: "fst (getNextId ?repo ?db) = Inr n"
      and id1: "id_f serveur1 = Some n" and id2: "id_f serveur2 = Some n"
      and table: "tables db' (tableName ?repo) =
          tables ?db (tableName ?repo) @ [as_ServeurInterface serveur1, as_ServeurInterface serveur2]"
    from n next_id have "n = 4" by simp
    moreover from table table_ids id1 id2
    have "ids (tables db' (tableName ?repo)) = [3, n, n]"
      by (simp add: ids_append id_f_as_ServeurInterface)
    moreover have "tableName ?repo = ''serveurs''" by (simp add: repo_ex_def)
    ultimately show ?thesis using h1 h2 h3 h4 run id1 id2 by simp
  qed
qed

section \<open>The fields of toJSON\<close>

text \<open>
  Claim C10. For every instance, the keys of the object that \<^verbatim>\<open>toJSON\<close> returns are
  exactly \<open>id\<close>, \<open>nom\<close>, \<open>jeu\<close>, \<open>version\<close>, \<open>modpack\<close>, \<open>modpack_url\<close>, \<open>nom_monde\<close>,
  \<open>embed_color\<close>, \<open>contenaire\<close>, \<open>description\<close>, \<open>actif\<close>, \<open>global\<close>, \<open>type\<close> and \<open>image\<close>;
  \<open>players_online\<close> is not one of them, and setting \<^verbatim>\<open>players_online\<close> changes nothing
  of the result.
\<close>

theorem toJSON_fields:
  "map fst (toJSON this) =
     [''id'', ''nom'', ''jeu'', ''version'', ''modpack'', ''modpack_url'', ''nom_monde'',
      ''embed_color'', ''contenaire'', ''description'', ''actif'', ''global'', ''type'', ''image'']
   \<and> ''players_online'' \<notin> set (map fst (toJSON this))
   \<and> toJSON (this\<lparr>players_online := Some n\<rparr>) = toJSON this"
  by (simp add: toJSON_def)

text \<open>The theorem on a server whose count of players has been set to 3.\<close>

theorem toJSON_fields_witness:
  "map_of (toJSON ((new_ModelServeur (row_ex 1))\<lparr>players_online := Some 3\<rparr>)) ''players_online'' = None
   \<and> map_of (toJSON ((new_ModelServeur (row_ex 1))\<lparr>players_online := Some 3\<rparr>)) ''id'' = Some (Num 1)"
proof -
  let ?m = "(new_ModelServeur (row_ex 1))\<lparr>players_online := Some 3\<rparr>"
  from toJSON_fields [of ?m] have "''players_online'' \<notin> set (map fst (toJSON ?m))" by blast
  then have "map_of (toJSON ?m) ''players_online'' = None" by (simp add: map_of_eq_None_iff)
  moreover have "map_of (toJSON ?m) ''id'' = Some (Num 1)"
    by (simp add: toJSON_def id_f_new_ModelServeur row_ex_def id_f_as_ServeurInterface)
  ultimately show ?thesis by simp
qed

end
